theory Spec2Isabelle
  imports Complex_Main
begin

section \<open>Data model\<close>

text \<open>
  Python floats are modelled by finite decimals: \<open>Dec m k\<close> stands for the number
  \<open>m / 10^k\<close>, printed with \<open>k\<close> digits after the point. Comparison is comparison of
  the numbers denoted. NaN and the infinities are outside the model.
\<close>

datatype pyfloat = Dec int nat

definition float_val :: "pyfloat \<Rightarrow> real" where
  "float_val f = (case f of Dec m k \<Rightarrow> real_of_int m / 10 ^ k)"

definition float_gt :: "pyfloat \<Rightarrow> pyfloat \<Rightarrow> bool" where
  "float_gt a b = (float_val b < float_val a)"

definition float_lt :: "pyfloat \<Rightarrow> pyfloat \<Rightarrow> bool" where
  "float_lt a b = (float_val a < float_val b)"

text \<open>The float literal \<open>0.0\<close>.\<close>

definition zero_float :: pyfloat where
  "zero_float = Dec 0 1"

text \<open>
  The module \<open>programmingtheiot.common.ConfigConst\<close> is not among the sources. The
  constants the code reads from it are parameters of the model: every function that
  uses one takes the record \<open>cc\<close>.
\<close>

record ConfigConst =
  NOT_SET :: string
  TEMP_SENSOR_TYPE :: int
  HVAC_ACTUATOR_TYPE :: int
  HUMIDIFIER_ACTUATOR_TYPE :: int
  LED_DISPLAY_ACTUATOR_TYPE :: int
  HVAC_ACTUATOR_NAME :: string
  COMMAND_ON :: int
  COMMAND_OFF :: int
  DEFAULT_QOS :: int

text \<open>
  Modelled from the spec: the classes SensorData, ActuatorData and
  SystemPerformanceData (package \<open>programmingtheiot.data\<close>) are not among the sources.
  The records carry the fields the spec lists for SensorReading, ActuatorCommand and
  PerformanceReading. A name is \<open>None\<close> or a string, as the code tests it with
  \<open>if data.getName()\<close>. Objects of these classes are truthy; \<open>None\<close> is the only
  falsy value a parameter of such a type takes, so a parameter is an \<open>option\<close>.
\<close>

record SensorData =
  sd_name :: "string option"
  sd_typeID :: int
  sd_locationID :: string
  sd_value :: pyfloat
  sd_timestamp :: string

record ActuatorData =
  ad_name :: "string option"
  ad_typeID :: int
  ad_locationID :: string
  ad_command :: int
  ad_value :: pyfloat
  ad_isResponse :: bool
  ad_statusCode :: int

record SystemPerformanceData =
  spd_name :: "string option"
  spd_cpuUtilization :: pyfloat
  spd_memoryUtilization :: pyfloat
  spd_diskUtilization :: pyfloat
  spd_timestamp :: string

text \<open>Python truthiness of a name: neither \<open>None\<close> nor the empty string.\<close>

fun truthy_name :: "string option \<Rightarrow> bool" where
  "truthy_name None = False"
| "truthy_name (Some s) = (s \<noteq> [])"

text \<open>
  Modelled from the spec: the enumeration ResourceNameEnum
  (\<open>programmingtheiot.common.ResourceNameEnum\<close>) is not among the sources. Its members
  are the five the spec's table names; their \<open>value\<close> strings and the lookup
  \<open>getResourceNameByValue\<close> are parameters of the functions that use them.
\<close>

datatype ResourceNameEnum =
    CDA_SENSOR_MSG_RESOURCE
  | CDA_ACTUATOR_CMD_RESOURCE
  | CDA_ACTUATOR_RESPONSE_MSG_RESOURCE
  | CDA_MGMT_STATUS_CMD_RESOURCE
  | CDA_SYSTEM_PERF_MSG_RESOURCE

datatype error = JSONDecodeError | TypeError | RuntimeError | ValueError | UnicodeDecodeError

section \<open>Effects\<close>

text \<open>
  What a call does beyond its result is a list of events, in the order they happen:
  a backend's \<open>updateActuator\<close>, the dispatch manager's \<open>sendActuatorCommand\<close>, the
  coordinator's \<open>_handleUpstreamTransmission\<close>, the transport's \<open>publish\<close>, the
  listener's \<open>handleIncomingMessage\<close> and \<open>handleSystemPerformanceMessage\<close>, and
  a system task's \<open>getTelemetryValue\<close> with the value it returns.
\<close>

datatype actuator_slot = Humidifier | Hvac | LedDisplay

datatype util_task = CpuUtil | MemUtil | DiskUtil

datatype event =
    UpdateActuator actuator_slot ActuatorData
  | SendActuatorCommand ActuatorData
  | UpstreamTransmission ResourceNameEnum string
  | McPublish string string int
  | HandleIncomingMessage ResourceNameEnum string
  | HandleSystemPerformanceMessage SystemPerformanceData
  | GetTelemetryValue util_task pyfloat

section \<open>The json module\<close>

text \<open>
  \<open>json.dumps\<close> and \<open>json.loads\<close> belong to Python's standard library. They are
  modelled on Python values built from \<open>None\<close>, booleans, integers, floats, strings,
  lists and dicts with string keys. A string is a list of characters with code points
  below 256; an escape \<open>\uXXXX\<close> beyond that, and the literals \<open>NaN\<close> and
  \<open>Infinity\<close>, are outside the model and rejected. A dict is the list of its items
  in insertion order.
\<close>

datatype pyval = PNone | PBool bool | PInt int | PFloat pyfloat | PStr string
  | PList "pyval list" | PDict "(string \<times> pyval) list"

subsection \<open>Printer\<close>

text \<open>
  \<open>json.dumps(obj, indent = 4)\<close>: integers in decimal, a float with its digits after
  the point (at least one, so \<open>Dec m 0\<close> is printed with \<open>.0\<close>), strings escaped as
  with \<open>ensure_ascii\<close>, the items of a non-empty list or dict one per line, indented
  by four spaces per level.
\<close>

definition digit_char :: "nat \<Rightarrow> char" where
  "digit_char n = ''0123456789abcdef'' ! n"

fun dec_digits :: "nat \<Rightarrow> string" where
  "dec_digits n = (if n < 10 then [digit_char n] else dec_digits (n div 10) @ [digit_char (n mod 10)])"

declare dec_digits.simps [simp del]

definition int_repr :: "int \<Rightarrow> string" where
  "int_repr i = (if i < 0 then CHR ''-'' # dec_digits (nat (- i)) else dec_digits (nat i))"

text \<open>The last \<open>k\<close> decimal digits of \<open>n\<close>, with leading zeros.\<close>

fun pad_digits :: "nat \<Rightarrow> nat \<Rightarrow> string" where
  "pad_digits 0 n = []"
| "pad_digits (Suc k) n = pad_digits k (n div 10) @ [digit_char (n mod 10)]"

definition float_repr :: "pyfloat \<Rightarrow> string" where
  "float_repr f = (case f of Dec m k \<Rightarrow>
     (if m < 0 then ''-'' else []) @ dec_digits (nat \<bar>m\<bar> div 10 ^ k) @ ''.''
       @ (if k = 0 then ''0'' else pad_digits k (nat \<bar>m\<bar> mod 10 ^ k)))"

text \<open>
  A double quote, a backslash and the control characters with a short escape are
  written with it; another character outside the printable ASCII range as \<open>\u00XX\<close>.
\<close>

definition escape_char :: "char \<Rightarrow> string" where
  "escape_char c =
     (if c = CHR 0x22 then [CHR 0x5C, CHR 0x22]
      else if c = CHR 0x5C then [CHR 0x5C, CHR 0x5C]
      else if c = CHR 0x0A then [CHR 0x5C, CHR ''n'']
      else if c = CHR 0x0D then [CHR 0x5C, CHR ''r'']
      else if c = CHR 0x09 then [CHR 0x5C, CHR ''t'']
      else if c = CHR 0x08 then [CHR 0x5C, CHR ''b'']
      else if c = CHR 0x0C then [CHR 0x5C, CHR ''f'']
      else if 32 \<le> (of_char c :: nat) \<and> (of_char c :: nat) \<le> 126 then [c]
      else [CHR 0x5C, CHR ''u'', CHR ''0'', CHR ''0'',
            digit_char ((of_char c :: nat) div 16), digit_char ((of_char c :: nat) mod 16)])"

definition str_repr :: "string \<Rightarrow> string" where
  "str_repr s = [CHR 0x22] @ concat (map escape_char s) @ [CHR 0x22]"

definition indent_str :: "nat \<Rightarrow> string" where
  "indent_str level = replicate (4 * level) CHR '' ''"

fun join :: "string \<Rightarrow> string list \<Rightarrow> string" where
  "join sep [] = []"
| "join sep [x] = x"
| "join sep (x # y # ys) = x @ sep @ join sep (y # ys)"

fun dumps_indent :: "nat \<Rightarrow> pyval \<Rightarrow> string" where
  "dumps_indent level PNone = ''null''"
| "dumps_indent level (PBool b) = (if b then ''true'' else ''false'')"
| "dumps_indent level (PInt i) = int_repr i"
| "dumps_indent level (PFloat f) = float_repr f"
| "dumps_indent level (PStr s) = str_repr s"
| "dumps_indent level (PList xs) =
     (if xs = [] then ''[]''
      else ''['' @ [CHR 0x0A] @ indent_str (Suc level)
           @ join ('','' @ [CHR 0x0A] @ indent_str (Suc level)) (map (dumps_indent (Suc level)) xs)
           @ [CHR 0x0A] @ indent_str level @ '']'')"
| "dumps_indent level (PDict kvs) =
     (if kvs = [] then ''{}''
      else ''{'' @ [CHR 0x0A] @ indent_str (Suc level)
           @ join ('','' @ [CHR 0x0A] @ indent_str (Suc level))
               (map (\<lambda>(k, v). str_repr k @ '': '' @ dumps_indent (Suc level) v) kvs)
           @ [CHR 0x0A] @ indent_str level @ ''}'')"


subsection \<open>Lexer\<close>

text \<open>
  \<open>json.loads\<close> is modelled in two passes over the text, each a loop with a state and
  one step per character or token. The lexer cuts the text into punctuation, strings
  and atoms; an atom is a maximal run of other characters, a number or a literal when
  it is well formed. A string ends at the closing quote; a raw control character and
  an unknown escape are errors.
\<close>

datatype token = TLBrace | TRBrace | TLBracket | TRBracket | TColon | TComma
  | TStr string | TAtom string

datatype lexmode = Idle | InAtom string | InStr string | InEsc string | InUni string string

definition hex_val :: "char \<Rightarrow> nat option" where
  "hex_val c =
     (let n = (of_char c :: nat) in
      if 48 \<le> n \<and> n \<le> 57 then Some (n - 48)
      else if 97 \<le> n \<and> n \<le> 102 then Some (n - 87)
      else if 65 \<le> n \<and> n \<le> 70 then Some (n - 55)
      else None)"

definition is_ws :: "char \<Rightarrow> bool" where
  "is_ws c = (c = CHR '' '' \<or> c = CHR 0x09 \<or> c = CHR 0x0A \<or> c = CHR 0x0D)"

definition punct :: "char \<Rightarrow> token option" where
  "punct c =
     (if c = CHR ''{'' then Some TLBrace else if c = CHR ''}'' then Some TRBrace
      else if c = CHR ''['' then Some TLBracket else if c = CHR '']'' then Some TRBracket
      else if c = CHR '':'' then Some TColon else if c = CHR '','' then Some TComma
      else None)"

definition lex_idle :: "token list \<Rightarrow> char \<Rightarrow> error + (token list \<times> lexmode)" where
  "lex_idle toks c =
     (if is_ws c then Inr (toks, Idle)
      else if c = CHR 0x22 then Inr (toks, InStr [])
      else (case punct c of Some t \<Rightarrow> Inr (toks @ [t], Idle)
            | None \<Rightarrow> Inr (toks, InAtom [c])))"

definition unescape :: "char \<Rightarrow> char option" where
  "unescape c =
     (if c = CHR 0x22 \<or> c = CHR 0x5C \<or> c = CHR ''/'' then Some c
      else if c = CHR ''b'' then Some (CHR 0x08)
      else if c = CHR ''f'' then Some (CHR 0x0C)
      else if c = CHR ''n'' then Some (CHR 0x0A)
      else if c = CHR ''r'' then Some (CHR 0x0D)
      else if c = CHR ''t'' then Some (CHR 0x09)
      else None)"

fun lex_step :: "token list \<times> lexmode \<Rightarrow> char \<Rightarrow> error + (token list \<times> lexmode)" where
  "lex_step (toks, Idle) c = lex_idle toks c"
| "lex_step (toks, InAtom a) c =
     (if is_ws c \<or> c = CHR 0x22 \<or> punct c \<noteq> None then lex_idle (toks @ [TAtom a]) c
      else Inr (toks, InAtom (a @ [c])))"
| "lex_step (toks, InStr s) c =
     (if c = CHR 0x22 then Inr (toks @ [TStr s], Idle)
      else if c = CHR 0x5C then Inr (toks, InEsc s)
      else if (of_char c :: nat) < 32 then Inl JSONDecodeError
      else Inr (toks, InStr (s @ [c])))"
| "lex_step (toks, InEsc s) c =
     (if c = CHR ''u'' then Inr (toks, InUni s [])
      else (case unescape c of Some d \<Rightarrow> Inr (toks, InStr (s @ [d]))
            | None \<Rightarrow> Inl JSONDecodeError))"
| "lex_step (toks, InUni s ds) c =
     (case hex_val c of
        None \<Rightarrow> Inl JSONDecodeError
      | Some _ \<Rightarrow>
          if length ds < 3 then Inr (toks, InUni s (ds @ [c]))
          else (case map hex_val (ds @ [c]) of
                  [Some a, Some b, Some e, Some f] \<Rightarrow>
                    if a = 0 \<and> b = 0 then Inr (toks, InStr (s @ [char_of (16 * e + f)]))
                    else Inl JSONDecodeError
                | _ \<Rightarrow> Inl JSONDecodeError))"

fun lex_all :: "token list \<times> lexmode \<Rightarrow> string \<Rightarrow> error + (token list \<times> lexmode)" where
  "lex_all st [] = Inr st"
| "lex_all st (c # cs) = (case lex_step st c of Inl e \<Rightarrow> Inl e | Inr st' \<Rightarrow> lex_all st' cs)"

definition lex :: "string \<Rightarrow> error + token list" where
  "lex s = (case lex_all ([], Idle) s of
              Inl e \<Rightarrow> Inl e
            | Inr (toks, Idle) \<Rightarrow> Inr toks
            | Inr (toks, InAtom a) \<Rightarrow> Inr (toks @ [TAtom a])
            | Inr (toks, _) \<Rightarrow> Inl JSONDecodeError)"

subsection \<open>Numbers and literals\<close>

text \<open>
  A number is an optional minus sign, an integer part without a leading zero, an
  optional fraction and an optional exponent. Without fraction and exponent it is an
  integer, otherwise a float.
\<close>

definition is_digit :: "char \<Rightarrow> bool" where
  "is_digit c = (48 \<le> (of_char c :: nat) \<and> (of_char c :: nat) \<le> 57)"

definition nat_of_digits :: "string \<Rightarrow> nat" where
  "nat_of_digits ds = foldl (\<lambda>n c. 10 * n + ((of_char c :: nat) - 48)) 0 ds"

text \<open>
  The exponent part of a number: empty, or \<open>e\<close> or \<open>E\<close>, an optional sign and at least
  one digit.
\<close>

definition exponent :: "string \<Rightarrow> int option option" where
  "exponent s =
     (case s of
        [] \<Rightarrow> Some None
      | c # r \<Rightarrow>
          if c = CHR ''e'' \<or> c = CHR ''E'' then
            (let neg = (r \<noteq> [] \<and> hd r = CHR ''-'');
                 ds = (if r \<noteq> [] \<and> (hd r = CHR ''-'' \<or> hd r = CHR ''+'') then tl r else r)
             in if ds \<noteq> [] \<and> list_all is_digit ds
                then Some (Some ((if neg then - 1 else 1) * int (nat_of_digits ds)))
                else None)
          else None)"

definition scale :: "int \<Rightarrow> int \<Rightarrow> pyfloat" where
  "scale m e = (if e < 0 then Dec m (nat (- e)) else Dec (m * 10 ^ nat e) 0)"

definition number :: "string \<Rightarrow> pyval option" where
  "number s =
     (let neg = (s \<noteq> [] \<and> hd s = CHR ''-'');
          body = (if neg then tl s else s);
          ip = takeWhile is_digit body;
          r1 = dropWhile is_digit body;
          sgn = (if neg then - 1 else 1 :: int)
      in if ip = [] \<or> (length ip > 1 \<and> hd ip = CHR ''0'') then None
         else if r1 = [] then Some (PInt (sgn * int (nat_of_digits ip)))
         else
           (let fp = (if hd r1 = CHR ''.'' then takeWhile is_digit (tl r1) else []);
                r2 = (if hd r1 = CHR ''.'' then dropWhile is_digit (tl r1) else r1)
            in if hd r1 = CHR ''.'' \<and> fp = [] then None
               else (case exponent r2 of
                       None \<Rightarrow> None
                     | Some ex \<Rightarrow>
                         Some (PFloat (scale (sgn * int (nat_of_digits (ip @ fp)))
                                 ((case ex of None \<Rightarrow> 0 | Some e \<Rightarrow> e) - int (length fp)))))))"

definition atom_value :: "string \<Rightarrow> pyval option" where
  "atom_value a =
     (if a = ''null'' then Some PNone
      else if a = ''true'' then Some (PBool True)
      else if a = ''false'' then Some (PBool False)
      else number a)"

subsection \<open>Parser\<close>

text \<open>
  The parser keeps the stack of the containers that are open, a list with the items
  read so far or a dict with its items and the key being read, and what it expects
  next. The text is accepted when the tokens end with one complete value and an empty
  stack.
\<close>

text \<open>
  A Python dict keeps the position of a key that is assigned again and takes the new
  value.
\<close>

fun dict_set :: "string \<Rightarrow> 'v \<Rightarrow> (string \<times> 'v) list \<Rightarrow> (string \<times> 'v) list" where
  "dict_set k v [] = [(k, v)]"
| "dict_set k v ((k', v') # kvs) =
     (if k = k' then (k, v) # kvs else (k', v') # dict_set k v kvs)"

datatype frame = FList "pyval list" | FDict "(string \<times> pyval) list" string

datatype pmode = ExpValue | ExpValueOrClose | ExpKeyOrClose | ExpKey | ExpColon
  | ExpCommaOrClose | Done pyval

text \<open>A value is complete: it goes into the innermost open container, or is the result.\<close>

fun complete :: "pyval \<Rightarrow> frame list \<Rightarrow> frame list \<times> pmode" where
  "complete v [] = ([], Done v)"
| "complete v (FList xs # st) = (FList (xs @ [v]) # st, ExpCommaOrClose)"
| "complete v (FDict kvs k # st) = (FDict (dict_set k v kvs) k # st, ExpCommaOrClose)"

definition start_value :: "bool \<Rightarrow> frame list \<Rightarrow> token \<Rightarrow> error + (frame list \<times> pmode)" where
  "start_value may_close st t =
     (case t of
        TLBracket \<Rightarrow> Inr (FList [] # st, ExpValueOrClose)
      | TLBrace \<Rightarrow> Inr (FDict [] [] # st, ExpKeyOrClose)
      | TStr s \<Rightarrow> Inr (complete (PStr s) st)
      | TAtom a \<Rightarrow> (case atom_value a of Some v \<Rightarrow> Inr (complete v st)
                     | None \<Rightarrow> Inl JSONDecodeError)
      | TRBracket \<Rightarrow> (case st of
                        FList xs # st' \<Rightarrow>
                          if may_close then Inr (complete (PList xs) st')
                          else Inl JSONDecodeError
                      | _ \<Rightarrow> Inl JSONDecodeError)
      | _ \<Rightarrow> Inl JSONDecodeError)"

fun parse_step :: "frame list \<times> pmode \<Rightarrow> token \<Rightarrow> error + (frame list \<times> pmode)" where
  "parse_step (st, ExpValue) t = start_value False st t"
| "parse_step (st, ExpValueOrClose) t = start_value True st t"
| "parse_step (FDict kvs k # st, ExpKeyOrClose) (TStr s) = Inr (FDict kvs s # st, ExpColon)"
| "parse_step (FDict kvs k # st, ExpKeyOrClose) TRBrace = Inr (complete (PDict kvs) st)"
| "parse_step (FDict kvs k # st, ExpKey) (TStr s) = Inr (FDict kvs s # st, ExpColon)"
| "parse_step (st, ExpColon) TColon = Inr (st, ExpValue)"
| "parse_step (FList xs # st, ExpCommaOrClose) TComma = Inr (FList xs # st, ExpValue)"
| "parse_step (FDict kvs k # st, ExpCommaOrClose) TComma = Inr (FDict kvs k # st, ExpKey)"
| "parse_step (FList xs # st, ExpCommaOrClose) TRBracket = Inr (complete (PList xs) st)"
| "parse_step (FDict kvs k # st, ExpCommaOrClose) TRBrace = Inr (complete (PDict kvs) st)"
| "parse_step _ _ = Inl JSONDecodeError"

fun parse_all :: "frame list \<times> pmode \<Rightarrow> token list \<Rightarrow> error + (frame list \<times> pmode)" where
  "parse_all st [] = Inr st"
| "parse_all st (t # ts) =
     (case parse_step st t of Inl e \<Rightarrow> Inl e | Inr st' \<Rightarrow> parse_all st' ts)"

definition json_loads :: "string \<Rightarrow> error + pyval" where
  "json_loads s =
     (case lex s of
        Inl e \<Rightarrow> Inl e
      | Inr toks \<Rightarrow>
          (case parse_all ([], ExpValue) toks of
             Inr (_, Done v) \<Rightarrow> Inr v
           | _ \<Rightarrow> Inl JSONDecodeError))"

definition json_dumps :: "pyval \<Rightarrow> string" where
  "json_dumps v = dumps_indent 0 v"

section \<open>DataUtil\<close>

text \<open>
  An object of one of the data classes is seen by the codec through its attribute
  dictionary: \<open>o.__dict__\<close> in \<open>JsonDataEncoder.default\<close>, \<open>vars(obj)\<close> in
  \<open>_updateIotData\<close>. The keys are the field names.
\<close>

type_synonym pyobj = "(string \<times> pyval) list"

definition name_val :: "string option \<Rightarrow> pyval" where
  "name_val n = (case n of None \<Rightarrow> PNone | Some s \<Rightarrow> PStr s)"

definition vars_SensorData :: "SensorData \<Rightarrow> pyobj" where
  "vars_SensorData d =
     [(''name'', name_val (sd_name d)), (''typeID'', PInt (sd_typeID d)),
      (''locationID'', PStr (sd_locationID d)), (''value'', PFloat (sd_value d)),
      (''timestamp'', PStr (sd_timestamp d))]"

definition vars_ActuatorData :: "ActuatorData \<Rightarrow> pyobj" where
  "vars_ActuatorData d =
     [(''name'', name_val (ad_name d)), (''typeID'', PInt (ad_typeID d)),
      (''locationID'', PStr (ad_locationID d)), (''command'', PInt (ad_command d)),
      (''value'', PFloat (ad_value d)), (''isResponse'', PBool (ad_isResponse d)),
      (''statusCode'', PInt (ad_statusCode d))]"

definition vars_SystemPerformanceData :: "SystemPerformanceData \<Rightarrow> pyobj" where
  "vars_SystemPerformanceData d =
     [(''name'', name_val (spd_name d)), (''cpuUtilization'', PFloat (spd_cpuUtilization d)),
      (''memoryUtilization'', PFloat (spd_memoryUtilization d)),
      (''diskUtilization'', PFloat (spd_diskUtilization d)),
      (''timestamp'', PStr (spd_timestamp d))]"

record DataUtil =
  encodeToUtf8 :: bool

text \<open>Python's \<open>str.replace(old, new)\<close> for a non-empty \<open>old\<close>.\<close>

function replace :: "string \<Rightarrow> string \<Rightarrow> string \<Rightarrow> string" where
  "replace old new [] = []"
| "replace old new (c # cs) =
     (if old \<noteq> [] \<and> take (length old) (c # cs) = old
      then new @ replace old new (drop (length old) (c # cs))
      else c # replace old new cs)"
  by pat_completeness auto
termination
  by (relation "measure (\<lambda>(old, new, s). length s)") auto

text \<open>
  The three replacements both \<open>_generateJsonData\<close> and \<open>_formatDataAndLoadDictionary\<close>
  apply to the whole text: a single quote becomes a double quote, \<open>False\<close> becomes
  \<open>false\<close>, \<open>True\<close> becomes \<open>true\<close>.
\<close>

definition replace_python_style :: "string \<Rightarrow> string" where
  "replace_python_style jsonData =
     replace ''True'' ''true'' (replace ''False'' ''false''
       (replace [CHR 0x27] [CHR 0x22] jsonData))"

text \<open>
  With \<open>encodeToUtf8\<close> the dumped text is encoded to bytes, and \<open>bytes.replace\<close> with
  \<open>str\<close> arguments raises TypeError. The text \<open>json.dumps\<close> returns is never empty.
\<close>

definition generateJsonData :: "DataUtil \<Rightarrow> pyobj \<Rightarrow> error + string" where
  "generateJsonData du obj =
     (if encodeToUtf8 du then Inl TypeError
      else Inr (replace_python_style (dumps_indent 0 (PDict obj))))"

definition sensorDataToJson :: "DataUtil \<Rightarrow> SensorData option \<Rightarrow> error + string" where
  "sensorDataToJson du data =
     (case data of None \<Rightarrow> Inr [] | Some d \<Rightarrow> generateJsonData du (vars_SensorData d))"

definition actuatorDataToJson :: "DataUtil \<Rightarrow> ActuatorData option \<Rightarrow> error + string" where
  "actuatorDataToJson du data =
     (case data of None \<Rightarrow> Inr [] | Some d \<Rightarrow> generateJsonData du (vars_ActuatorData d))"

definition systemPerformanceDataToJson ::
    "DataUtil \<Rightarrow> SystemPerformanceData option \<Rightarrow> error + string" where
  "systemPerformanceDataToJson du data =
     (case data of None \<Rightarrow> Inr []
      | Some d \<Rightarrow> generateJsonData du (vars_SystemPerformanceData d))"

definition formatDataAndLoadDictionary :: "string \<Rightarrow> error + pyval" where
  "formatDataAndLoadDictionary jsonData = json_loads (replace_python_style jsonData)"

definition has_attr :: "pyobj \<Rightarrow> string \<Rightarrow> bool" where
  "has_attr obj k = (k \<in> set (map fst obj))"

text \<open>
  The loop of \<open>_updateIotData\<close> over a dict: a key that is an attribute of the object
  is set, another one is logged and skipped.
\<close>

fun update_from_dict :: "pyobj \<Rightarrow> (string \<times> pyval) list \<Rightarrow> pyobj" where
  "update_from_dict obj [] = obj"
| "update_from_dict obj ((k, v) # kvs) =
     update_from_dict (if has_attr obj k then dict_set k v obj else obj) kvs"

text \<open>
  The same loop over a list iterates over its elements: a list or a dict is not
  hashable, and for a string that is an attribute name the list is then indexed with
  that string. Both raise TypeError.
\<close>

fun update_from_list :: "pyobj \<Rightarrow> pyval list \<Rightarrow> error + pyobj" where
  "update_from_list obj [] = Inr obj"
| "update_from_list obj (PList xs # es) = Inl TypeError"
| "update_from_list obj (PDict kvs # es) = Inl TypeError"
| "update_from_list obj (PStr s # es) =
     (if has_attr obj s then Inl TypeError else update_from_list obj es)"
| "update_from_list obj (e # es) = update_from_list obj es"

text \<open>Over a string the loop iterates over its characters.\<close>

fun update_from_str :: "pyobj \<Rightarrow> string \<Rightarrow> error + pyobj" where
  "update_from_str obj [] = Inr obj"
| "update_from_str obj (c # cs) =
     (if has_attr obj [c] then Inl TypeError else update_from_str obj cs)"

fun updateIotData :: "pyval \<Rightarrow> pyobj \<Rightarrow> error + pyobj" where
  "updateIotData (PDict kvs) obj = Inr (update_from_dict obj kvs)"
| "updateIotData (PList xs) obj = update_from_list obj xs"
| "updateIotData (PStr s) obj = update_from_str obj s"
| "updateIotData _ obj = Inl TypeError"

text \<open>
  The three decoders differ in the object they construct first; \<open>fresh\<close> is the
  attribute dictionary of that object. The result is the updated object, \<open>None\<close> for
  an input that is \<open>None\<close> or empty, or the exception the call raises. The parameter
  \<open>useDecForFloat\<close> keeps its default \<open>False\<close>.
\<close>

definition jsonToData :: "pyobj \<Rightarrow> string option \<Rightarrow> error + pyobj option" where
  "jsonToData fresh jsonData =
     (case jsonData of
        None \<Rightarrow> Inr None
      | Some s \<Rightarrow>
          if s = [] then Inr None
          else (case formatDataAndLoadDictionary s of
                  Inl e \<Rightarrow> Inl e
                | Inr jsonStruct \<Rightarrow>
                    (case updateIotData jsonStruct fresh of
                       Inl e \<Rightarrow> Inl e
                     | Inr obj \<Rightarrow> Inr (Some obj))))"

definition jsonToActuatorData :: "ActuatorData \<Rightarrow> string option \<Rightarrow> error + pyobj option" where
  "jsonToActuatorData fresh jsonData = jsonToData (vars_ActuatorData fresh) jsonData"

definition jsonToSensorData :: "SensorData \<Rightarrow> string option \<Rightarrow> error + pyobj option" where
  "jsonToSensorData fresh jsonData = jsonToData (vars_SensorData fresh) jsonData"

definition jsonToSystemPerformanceData ::
    "SystemPerformanceData \<Rightarrow> string option \<Rightarrow> error + pyobj option" where
  "jsonToSystemPerformanceData fresh jsonData =
     jsonToData (vars_SystemPerformanceData fresh) jsonData"

text \<open>Decoding what encoding produced.\<close>

definition roundtrip_SensorData :: "DataUtil \<Rightarrow> SensorData \<Rightarrow> SensorData
    \<Rightarrow> error + pyobj option" where
  "roundtrip_SensorData du fresh r =
     (case sensorDataToJson du (Some r) of
        Inl e \<Rightarrow> Inl e
      | Inr text \<Rightarrow> jsonToSensorData fresh (Some text))"

section \<open>ActuatorAdapterManager\<close>

text \<open>
  An actuator task is what its \<open>updateActuator\<close> returns for a command: a response or
  \<open>None\<close>. The task classes are external collaborators; a field of the manager holds
  a task or \<open>None\<close>.
\<close>

type_synonym actuator_task = "ActuatorData \<Rightarrow> ActuatorData option"

record ActuatorAdapterManager =
  aam_locationID :: string
  humidifierActuator :: "actuator_task option"
  hvacActuator :: "actuator_task option"
  ledDisplayActuator :: "actuator_task option"

text \<open>One branch of the routing chain: the type matches and the task is present.\<close>

definition route :: "actuator_slot \<Rightarrow> actuator_task \<Rightarrow> ActuatorData
    \<Rightarrow> ActuatorData option \<times> event list" where
  "route slot task d = (task d, [UpdateActuator slot d])"

definition sendActuatorCommand :: "ConfigConst \<Rightarrow> ActuatorAdapterManager
    \<Rightarrow> ActuatorData option \<Rightarrow> ActuatorData option \<times> event list" where
  "sendActuatorCommand cc mgr data =
     (case data of
        None \<Rightarrow> (None, [])
      | Some d \<Rightarrow>
          if \<not> ad_isResponse d then
            if ad_locationID d = aam_locationID mgr then
              (let aType = ad_typeID d in
               if aType = HUMIDIFIER_ACTUATOR_TYPE cc \<and> humidifierActuator mgr \<noteq> None then
                 (case humidifierActuator mgr of
                    Some task \<Rightarrow> route Humidifier task d | None \<Rightarrow> (None, []))
               else if aType = HVAC_ACTUATOR_TYPE cc \<and> hvacActuator mgr \<noteq> None then
                 (case hvacActuator mgr of
                    Some task \<Rightarrow> route Hvac task d | None \<Rightarrow> (None, []))
               else if aType = LED_DISPLAY_ACTUATOR_TYPE cc \<and> ledDisplayActuator mgr \<noteq> None then
                 (case ledDisplayActuator mgr of
                    Some task \<Rightarrow> route LedDisplay task d | None \<Rightarrow> (None, []))
               else (None, []))
            else (None, [])
          else (None, []))"

section \<open>MqttClientConnector\<close>

text \<open>
  The paho-mqtt client is an external library. Its \<open>publish\<close> raises ValueError for
  an empty topic, a topic with a wildcard, or a QoS outside 0..2; otherwise it returns
  a message info whose result code is \<open>MQTT_ERR_NO_CONN\<close> when the client has no
  connection to the broker. \<open>wait_for_publish\<close> raises RuntimeError for a result code
  above zero and returns otherwise.
\<close>

record PahoClient =
  connected :: bool

definition MQTT_ERR_SUCCESS :: int where
  "MQTT_ERR_SUCCESS = 0"

definition MQTT_ERR_NO_CONN :: int where
  "MQTT_ERR_NO_CONN = 4"

definition mc_publish :: "PahoClient \<Rightarrow> string \<Rightarrow> string \<Rightarrow> int \<Rightarrow> error + int" where
  "mc_publish c topic payload qos =
     (if topic = [] \<or> CHR ''+'' \<in> set topic \<or> CHR ''#'' \<in> set topic then Inl ValueError
      else if qos < 0 \<or> 2 < qos then Inl ValueError
      else Inr (if connected c then MQTT_ERR_SUCCESS else MQTT_ERR_NO_CONN))"

definition wait_for_publish :: "int \<Rightarrow> error + unit" where
  "wait_for_publish rc = (if 0 < rc then Inl RuntimeError else Inr ())"

text \<open>
  The listener registered with the connector is the coordinator; the connector only
  calls its \<open>handleIncomingMessage\<close>, so the reference is a token.
\<close>

datatype IDataMessageListener = DataMessageListener

record MqttClientConnector =
  mc :: PahoClient
  dataMsgListener :: "IDataMessageListener option"

text \<open>
  A delivered message: its topic, and what \<open>msg.payload.decode('utf-8')\<close> gives, the
  text or UnicodeDecodeError.
\<close>

record MQTTMessage =
  msg_topic :: string
  msg_payload :: "error + string"

text \<open>
  \<open>resource.value\<close> is the parameter \<open>rv\<close>. Everything after it is inside the
  \<open>try\<close>, whose handler returns False.
\<close>

definition publishMessage :: "(ResourceNameEnum \<Rightarrow> string) \<Rightarrow> MqttClientConnector
    \<Rightarrow> ResourceNameEnum option \<Rightarrow> string option \<Rightarrow> int \<Rightarrow> bool \<times> event list" where
  "publishMessage rv conn resource msg qos =
     (case resource of
        None \<Rightarrow> (False, [])
      | Some r \<Rightarrow>
          (case msg of
             None \<Rightarrow> (False, [])
           | Some m \<Rightarrow>
               if m = [] then (False, [])
               else
                 (let topic = rv r in
                  case mc_publish (mc conn) topic m qos of
                    Inl e \<Rightarrow> (False, [McPublish topic m qos])
                  | Inr rc \<Rightarrow>
                      (case wait_for_publish rc of
                         Inl e \<Rightarrow> (False, [McPublish topic m qos])
                       | Inr u \<Rightarrow> (True, [McPublish topic m qos])))))"

text \<open>
  \<open>ResourceNameEnum.getResourceNameByValue\<close> is the parameter \<open>lookup\<close>: it returns a
  member, \<open>None\<close>, or raises. The payload is decoded before the \<open>try\<close>, so a failure
  there leaves the callback; an exception of the lookup is caught.
\<close>

definition onMessage :: "(string \<Rightarrow> error + ResourceNameEnum option) \<Rightarrow> MqttClientConnector
    \<Rightarrow> MQTTMessage \<Rightarrow> error + event list" where
  "onMessage lookup conn msg =
     (case msg_payload msg of
        Inl e \<Rightarrow> Inl e
      | Inr payload \<Rightarrow>
          (case dataMsgListener conn of
             None \<Rightarrow> Inr []
           | Some listener \<Rightarrow>
               (case lookup (msg_topic msg) of
                  Inl e \<Rightarrow> Inr []
                | Inr None \<Rightarrow> Inr []
                | Inr (Some resourceEnum) \<Rightarrow>
                    Inr [HandleIncomingMessage resourceEnum payload])))"

text \<open>The events of a call that may raise: none when it raised before any.\<close>

definition events_of :: "error + event list \<Rightarrow> event list" where
  "events_of r = (case r of Inl e \<Rightarrow> [] | Inr evs \<Rightarrow> evs)"

section \<open>SystemPerformanceManager\<close>

text \<open>
  The two tasks are represented by the value their \<open>getTelemetryValue\<close> returns. The
  class has no listener field: \<open>setDataMessageListener\<close> has the body \<open>pass\<close>.
\<close>

record SystemPerformanceManager =
  spm_pollRate :: int
  cpuUtilTask :: pyfloat
  memUtilTask :: pyfloat
  spm_isStarted :: bool

definition handleTelemetry :: "SystemPerformanceManager \<Rightarrow> event list" where
  "handleTelemetry spm =
     [GetTelemetryValue CpuUtil (cpuUtilTask spm), GetTelemetryValue MemUtil (memUtilTask spm)]"

definition setDataMessageListener :: "SystemPerformanceManager \<Rightarrow> IDataMessageListener option
    \<Rightarrow> SystemPerformanceManager" where
  "setDataMessageListener spm listener = spm"

section \<open>DeviceDataManager\<close>

text \<open>
  The constructor sets \<open>coapClient\<close> to \<open>None\<close> in both branches and creates the codec
  as \<open>DataUtil()\<close>; neither is assigned again, so both are constants of the model.
\<close>

record DeviceDataManager =
  handleTempChangeOnDevice :: bool
  triggerHvacTempFloor :: pyfloat
  triggerHvacTempCeiling :: pyfloat
  actuatorAdapterMgr :: ActuatorAdapterManager
  mqttClient :: "MqttClientConnector option"
  latestSensorDataCache :: "string \<rightharpoonup> SensorData"
  latestActuatorDataCache :: "string \<rightharpoonup> ActuatorData"
  latestSystemPerfDataCache :: "string \<rightharpoonup> SystemPerformanceData"

definition new_DataUtil :: DataUtil where
  "new_DataUtil = \<lparr>encodeToUtf8 = False\<rparr>"

text \<open>
  Modelled from the spec: the constructor and the setters of ActuatorData are not among
  the sources. A new command is not a response and has the default values of the
  constants module; a setter stores its argument.
\<close>

definition new_ActuatorData :: "ConfigConst \<Rightarrow> int \<Rightarrow> ActuatorData" where
  "new_ActuatorData cc typeID =
     \<lparr>ad_name = Some (NOT_SET cc), ad_typeID = typeID, ad_locationID = NOT_SET cc,
      ad_command = COMMAND_OFF cc, ad_value = zero_float, ad_isResponse = False,
      ad_statusCode = 0\<rparr>"

text \<open>\<open>if name and name in cache: return cache[name]\<close>, else \<open>None\<close>.\<close>

definition cache_get :: "(string \<rightharpoonup> 'a) \<Rightarrow> string option \<Rightarrow> 'a option" where
  "cache_get cache name =
     (case name of None \<Rightarrow> None | Some n \<Rightarrow> if n \<noteq> [] then cache n else None)"

definition getLatestActuatorDataResponseFromCache ::
    "DeviceDataManager \<Rightarrow> string option \<Rightarrow> ActuatorData option" where
  "getLatestActuatorDataResponseFromCache mgr name = cache_get (latestActuatorDataCache mgr) name"

definition getLatestSensorDataFromCache ::
    "DeviceDataManager \<Rightarrow> string option \<Rightarrow> SensorData option" where
  "getLatestSensorDataFromCache mgr name = cache_get (latestSensorDataCache mgr) name"

definition getLatestSystemPerformanceDataFromCache ::
    "DeviceDataManager \<Rightarrow> string option \<Rightarrow> SystemPerformanceData option" where
  "getLatestSystemPerformanceDataFromCache mgr name =
     cache_get (latestSystemPerfDataCache mgr) name"

text \<open>\<open>if data.getName(): cache[data.getName()] = data\<close>.\<close>

definition cache_put :: "(string \<rightharpoonup> 'a) \<Rightarrow> string option \<Rightarrow> 'a \<Rightarrow> (string \<rightharpoonup> 'a)" where
  "cache_put cache name data =
     (case name of
        None \<Rightarrow> cache
      | Some n \<Rightarrow> if n \<noteq> [] then cache(n \<mapsto> data) else cache)"

definition handleActuatorCommandMessage :: "ConfigConst \<Rightarrow> DeviceDataManager
    \<Rightarrow> ActuatorData option \<Rightarrow> ActuatorData option \<times> event list" where
  "handleActuatorCommandMessage cc mgr data =
     (case data of
        None \<Rightarrow> (None, [])
      | Some d \<Rightarrow>
          (case sendActuatorCommand cc (actuatorAdapterMgr mgr) (Some d) of
             (response, evs) \<Rightarrow> (response, SendActuatorCommand d # evs)))"

definition handleSensorDataAnalysis :: "ConfigConst \<Rightarrow> DeviceDataManager \<Rightarrow> SensorData
    \<Rightarrow> event list" where
  "handleSensorDataAnalysis cc mgr data =
     (if handleTempChangeOnDevice mgr \<and> sd_typeID data = TEMP_SENSOR_TYPE cc then
        (let ad = (new_ActuatorData cc (HVAC_ACTUATOR_TYPE cc))
                    \<lparr>ad_locationID := sd_locationID data,
                     ad_name := Some (HVAC_ACTUATOR_NAME cc)\<rparr>;
             ad' = (if float_gt (sd_value data) (triggerHvacTempCeiling mgr) then
                      ad\<lparr>ad_command := COMMAND_ON cc, ad_value := triggerHvacTempCeiling mgr\<rparr>
                    else if float_lt (sd_value data) (triggerHvacTempFloor mgr) then
                      ad\<lparr>ad_command := COMMAND_ON cc, ad_value := triggerHvacTempFloor mgr\<rparr>
                    else
                      ad\<lparr>ad_command := COMMAND_OFF cc, ad_value := zero_float\<rparr>)
         in snd (handleActuatorCommandMessage cc mgr (Some ad')))
      else [])"

definition handleUpstreamTransmission :: "(ResourceNameEnum \<Rightarrow> string) \<Rightarrow> ConfigConst
    \<Rightarrow> DeviceDataManager \<Rightarrow> ResourceNameEnum \<Rightarrow> string \<Rightarrow> event list" where
  "handleUpstreamTransmission rv cc mgr resourceName msg =
     UpstreamTransmission resourceName msg #
       (case mqttClient mgr of
          None \<Rightarrow> []
        | Some client \<Rightarrow>
            snd (publishMessage rv client (Some resourceName) (Some msg) (DEFAULT_QOS cc)))"

text \<open>
  A handler returns its boolean, the coordinator after the call and the events of the
  call, or the exception that leaves it.
\<close>

definition handleActuatorCommandResponse :: "(ResourceNameEnum \<Rightarrow> string) \<Rightarrow> ConfigConst
    \<Rightarrow> DeviceDataManager \<Rightarrow> ActuatorData option
    \<Rightarrow> error + (bool \<times> DeviceDataManager \<times> event list)" where
  "handleActuatorCommandResponse rv cc mgr data =
     (case data of
        None \<Rightarrow> Inr (False, mgr, [])
      | Some d \<Rightarrow>
          (let mgr' = mgr\<lparr>latestActuatorDataCache :=
                            cache_put (latestActuatorDataCache mgr) (ad_name d) d\<rparr>
           in case actuatorDataToJson new_DataUtil (Some d) of
                Inl e \<Rightarrow> Inl e
              | Inr msg \<Rightarrow>
                  Inr (True, mgr',
                       handleUpstreamTransmission rv cc mgr'
                         CDA_ACTUATOR_RESPONSE_MSG_RESOURCE msg)))"

definition handleSensorMessage :: "(ResourceNameEnum \<Rightarrow> string) \<Rightarrow> ConfigConst
    \<Rightarrow> DeviceDataManager \<Rightarrow> SensorData option
    \<Rightarrow> error + (bool \<times> DeviceDataManager \<times> event list)" where
  "handleSensorMessage rv cc mgr data =
     (case data of
        None \<Rightarrow> Inr (False, mgr, [])
      | Some d \<Rightarrow>
          (let mgr' = mgr\<lparr>latestSensorDataCache :=
                            cache_put (latestSensorDataCache mgr) (sd_name d) d\<rparr>;
               evs = handleSensorDataAnalysis cc mgr' d
           in case sensorDataToJson new_DataUtil (Some d) of
                Inl e \<Rightarrow> Inl e
              | Inr msg \<Rightarrow>
                  Inr (True, mgr',
                       evs @ handleUpstreamTransmission rv cc mgr' CDA_SENSOR_MSG_RESOURCE msg)))"

definition handleSystemPerformanceMessage :: "(ResourceNameEnum \<Rightarrow> string) \<Rightarrow> ConfigConst
    \<Rightarrow> DeviceDataManager \<Rightarrow> SystemPerformanceData option
    \<Rightarrow> error + (bool \<times> DeviceDataManager \<times> event list)" where
  "handleSystemPerformanceMessage rv cc mgr data =
     (case data of
        None \<Rightarrow> Inr (False, mgr, [])
      | Some d \<Rightarrow>
          (let mgr' = mgr\<lparr>latestSystemPerfDataCache :=
                            cache_put (latestSystemPerfDataCache mgr) (spd_name d) d\<rparr>
           in case systemPerformanceDataToJson new_DataUtil (Some d) of
                Inl e \<Rightarrow> Inl e
              | Inr msg \<Rightarrow>
                  Inr (True, mgr',
                       handleUpstreamTransmission rv cc mgr'
                         CDA_SYSTEM_PERF_MSG_RESOURCE msg)))"

text \<open>
  A sequence of calls of \<open>handleSensorMessage\<close>, as the sensor manager makes them: the
  coordinator after the last call.
\<close>

fun handleSensorMessages :: "(ResourceNameEnum \<Rightarrow> string) \<Rightarrow> ConfigConst
    \<Rightarrow> DeviceDataManager \<Rightarrow> SensorData option list \<Rightarrow> error + DeviceDataManager" where
  "handleSensorMessages rv cc mgr [] = Inr mgr"
| "handleSensorMessages rv cc mgr (data # rest) =
     (case handleSensorMessage rv cc mgr data of
        Inl e \<Rightarrow> Inl e
      | Inr (ok, mgr', evs) \<Rightarrow> handleSensorMessages rv cc mgr' rest)"

section \<open>Concrete inputs\<close>

text \<open>
  Sample values of the constants, and a device with the two simulated backends, used
  to evaluate the model on concrete inputs.
\<close>

definition cc0 :: ConfigConst where
  "cc0 = \<lparr>NOT_SET = ''Not Set'', TEMP_SENSOR_TYPE = 1013, HVAC_ACTUATOR_TYPE = 1,
          HUMIDIFIER_ACTUATOR_TYPE = 2, LED_DISPLAY_ACTUATOR_TYPE = 100,
          HVAC_ACTUATOR_NAME = ''HvacActuator'', COMMAND_ON = 1, COMMAND_OFF = 0,
          DEFAULT_QOS = 0\<rparr>"

definition sim_task :: actuator_task where
  "sim_task d = Some (d\<lparr>ad_isResponse := True\<rparr>)"

definition aam0 :: ActuatorAdapterManager where
  "aam0 = \<lparr>aam_locationID = ''constraineddevice001'',
           humidifierActuator = Some sim_task, hvacActuator = Some sim_task,
           ledDisplayActuator = None\<rparr>"

definition hvac_cmd0 :: ActuatorData where
  "hvac_cmd0 = \<lparr>ad_name = Some ''HvacActuator'', ad_typeID = 1,
                ad_locationID = ''constraineddevice001'', ad_command = 1,
                ad_value = Dec 200 1, ad_isResponse = False, ad_statusCode = 0\<rparr>"

definition rv0 :: "ResourceNameEnum \<Rightarrow> string" where
  "rv0 r =
     (case r of
        CDA_SENSOR_MSG_RESOURCE \<Rightarrow> ''PIOT/ConstrainedDevice/SensorMsg''
      | CDA_ACTUATOR_CMD_RESOURCE \<Rightarrow> ''PIOT/ConstrainedDevice/ActuatorCmd''
      | CDA_ACTUATOR_RESPONSE_MSG_RESOURCE \<Rightarrow> ''PIOT/ConstrainedDevice/ActuatorResponse''
      | CDA_MGMT_STATUS_CMD_RESOURCE \<Rightarrow> ''PIOT/ConstrainedDevice/MgmtStatusCmd''
      | CDA_SYSTEM_PERF_MSG_RESOURCE \<Rightarrow> ''PIOT/ConstrainedDevice/SystemPerfMsg'')"

definition lookup0 :: "string \<Rightarrow> error + ResourceNameEnum option" where
  "lookup0 topic =
     Inr (find (\<lambda>r. rv0 r = topic)
            [CDA_SENSOR_MSG_RESOURCE, CDA_ACTUATOR_CMD_RESOURCE,
             CDA_ACTUATOR_RESPONSE_MSG_RESOURCE, CDA_MGMT_STATUS_CMD_RESOURCE,
             CDA_SYSTEM_PERF_MSG_RESOURCE])"

definition conn0 :: MqttClientConnector where
  "conn0 = \<lparr>mc = \<lparr>connected = False\<rparr>, dataMsgListener = Some DataMessageListener\<rparr>"

definition ddm0 :: DeviceDataManager where
  "ddm0 = \<lparr>handleTempChangeOnDevice = True, triggerHvacTempFloor = Dec 180 1,
           triggerHvacTempCeiling = Dec 200 1, actuatorAdapterMgr = aam0,
           mqttClient = Some conn0, latestSensorDataCache = Map.empty,
           latestActuatorDataCache = Map.empty, latestSystemPerfDataCache = Map.empty\<rparr>"

definition temp_reading :: "pyfloat \<Rightarrow> SensorData" where
  "temp_reading v = \<lparr>sd_name = Some ''TempSensor'', sd_typeID = 1013,
                     sd_locationID = ''constraineddevice001'', sd_value = v,
                     sd_timestamp = ''2025-01-01T00:00:00+00:00''\<rparr>"

definition sd_fresh :: SensorData where
  "sd_fresh = \<lparr>sd_name = Some ''Not Set'', sd_typeID = 0, sd_locationID = ''Not Set'',
               sd_value = Dec 0 1, sd_timestamp = []\<rparr>"

definition spd0 :: SystemPerformanceData where
  "spd0 = \<lparr>spd_name = Some ''SystemPerfMsg'', spd_cpuUtilization = Dec 125 1,
           spd_memoryUtilization = Dec 403 1, spd_diskUtilization = Dec 0 1,
           spd_timestamp = ''2025-01-01T00:00:00+00:00''\<rparr>"

definition sd_true :: SensorData where
  "sd_true = (temp_reading (Dec 215 1))\<lparr>sd_name := Some ''TrueTemp''\<rparr>"

definition sd_quote :: SensorData where
  "sd_quote = (temp_reading (Dec 215 1))\<lparr>sd_name := Some (''Bob'' @ [CHR 0x27] @ ''s sensor'')\<rparr>"

text \<open>
  The reading the sensor cache should hold for the name \<open>X\<close> after a sequence of
  calls: the last non-null reading of that name, or what it held before.
\<close>

fun latest_named :: "string \<Rightarrow> SensorData option \<Rightarrow> SensorData option list
    \<Rightarrow> SensorData option" where
  "latest_named X cur [] = cur"
| "latest_named X cur (None # ds) = latest_named X cur ds"
| "latest_named X cur (Some d # ds) =
     latest_named X (if sd_name d = Some X then Some d else cur) ds"

section \<open>Properties of the ActuatorAdapterManager\<close>

text \<open>
  A command for this device, of a type with a backend, reaches that backend and the
  backend's response is returned.
\<close>

lemma sendActuatorCommand_accepts_hvac:
  "sendActuatorCommand cc0 aam0 (Some hvac_cmd0)
     = (Some (hvac_cmd0\<lparr>ad_isResponse := True\<rparr>), [UpdateActuator Hvac hvac_cmd0])"
  by (simp add: sendActuatorCommand_def cc0_def aam0_def hvac_cmd0_def route_def sim_task_def)

text \<open>
  Claim C5. A command that is null, or has its isResponse flag enabled, or carries a
  locationID different from the device's configured location makes
  \<open>sendActuatorCommand\<close> return \<open>None\<close> and invoke no actuator backend: the list of
  events of the call is empty.
\<close>

theorem sendActuatorCommand_rejects:
  assumes "data = None
           \<or> (\<exists>d. data = Some d \<and> (ad_isResponse d \<or> ad_locationID d \<noteq> aam_locationID mgr))"
  shows "sendActuatorCommand cc mgr data = (None, [])"
  using assms by (auto simp: sendActuatorCommand_def)

theorem sendActuatorCommand_rejects_witness:
  "sendActuatorCommand cc0 aam0 None = (None, [])
   \<and> sendActuatorCommand cc0 aam0 (Some (hvac_cmd0\<lparr>ad_isResponse := True\<rparr>)) = (None, [])
   \<and> sendActuatorCommand cc0 aam0 (Some (hvac_cmd0\<lparr>ad_locationID := ''elsewhere''\<rparr>))
       = (None, [])"
proof -
  have a: "sendActuatorCommand cc0 aam0 None = (None, [])"
    using sendActuatorCommand_rejects [of None aam0 cc0] by simp
  have b: "sendActuatorCommand cc0 aam0 (Some (hvac_cmd0\<lparr>ad_isResponse := True\<rparr>)) = (None, [])"
    using sendActuatorCommand_rejects [of "Some (hvac_cmd0\<lparr>ad_isResponse := True\<rparr>)" aam0 cc0]
    by simp
  have c: "sendActuatorCommand cc0 aam0 (Some (hvac_cmd0\<lparr>ad_locationID := ''elsewhere''\<rparr>))
           = (None, [])"
    using sendActuatorCommand_rejects [of "Some (hvac_cmd0\<lparr>ad_locationID := ''elsewhere''\<rparr>)" aam0 cc0]
    by (simp add: aam0_def)
  from a b c show ?thesis by simp
qed

section \<open>Properties of the control rule\<close>

lemma sendActuatorCommand_events:
  "SendActuatorCommand a \<notin> set (snd (sendActuatorCommand cc mgr data))"
  by (auto simp: sendActuatorCommand_def route_def Let_def split: option.splits)

lemma handleActuatorCommandMessage_events:
  "snd (handleActuatorCommandMessage cc mgr (Some d))
     = SendActuatorCommand d # snd (sendActuatorCommand cc (actuatorAdapterMgr mgr) (Some d))"
  by (simp add: handleActuatorCommandMessage_def split: prod.splits)

text \<open>
  Claim C1. For a reading of temperature type, with local temperature handling enabled
  and floor below ceiling, \<open>_handleSensorDataAnalysis\<close> issues exactly one command to
  the dispatch manager. The command has the HVAC actuator type and name and the
  reading's location. It is ON with the ceiling as value when the reading's value is
  above the ceiling, ON with the floor as value when it is below the floor, and OFF
  with value 0.0 otherwise: the command and its value depend on the value, the floor
  and the ceiling only.
\<close>

theorem control_rule:
  assumes "handleTempChangeOnDevice mgr"
    and "sd_typeID data = TEMP_SENSOR_TYPE cc"
    and "float_lt (triggerHvacTempFloor mgr) (triggerHvacTempCeiling mgr)"
  shows "\<exists>ad rest.
           handleSensorDataAnalysis cc mgr data = SendActuatorCommand ad # rest
           \<and> (\<forall>a. SendActuatorCommand a \<notin> set rest)
           \<and> ad_typeID ad = HVAC_ACTUATOR_TYPE cc
           \<and> ad_name ad = Some (HVAC_ACTUATOR_NAME cc)
           \<and> ad_locationID ad = sd_locationID data
           \<and> (float_gt (sd_value data) (triggerHvacTempCeiling mgr) \<longrightarrow>
                ad_command ad = COMMAND_ON cc \<and> ad_value ad = triggerHvacTempCeiling mgr)
           \<and> (float_lt (sd_value data) (triggerHvacTempFloor mgr) \<longrightarrow>
                ad_command ad = COMMAND_ON cc \<and> ad_value ad = triggerHvacTempFloor mgr)
           \<and> (\<not> float_gt (sd_value data) (triggerHvacTempCeiling mgr)
                \<and> \<not> float_lt (sd_value data) (triggerHvacTempFloor mgr) \<longrightarrow>
                ad_command ad = COMMAND_OFF cc \<and> ad_value ad = zero_float)"
proof -
  let ?v = "sd_value data"
  let ?hi = "triggerHvacTempCeiling mgr"
  let ?lo = "triggerHvacTempFloor mgr"
  let ?base = "(new_ActuatorData cc (HVAC_ACTUATOR_TYPE cc))
                 \<lparr>ad_locationID := sd_locationID data, ad_name := Some (HVAC_ACTUATOR_NAME cc)\<rparr>"
  let ?ad = "if float_gt ?v ?hi then ?base\<lparr>ad_command := COMMAND_ON cc, ad_value := ?hi\<rparr>
             else if float_lt ?v ?lo then ?base\<lparr>ad_command := COMMAND_ON cc, ad_value := ?lo\<rparr>
             else ?base\<lparr>ad_command := COMMAND_OFF cc, ad_value := zero_float\<rparr>"
  let ?rest = "snd (sendActuatorCommand cc (actuatorAdapterMgr mgr) (Some ?ad))"
  have excl: "float_lt ?v ?lo \<Longrightarrow> \<not> float_gt ?v ?hi"
    using assms(3) by (auto simp: float_lt_def float_gt_def)
  have run: "handleSensorDataAnalysis cc mgr data = SendActuatorCommand ?ad # ?rest"
    using assms(1,2)
    by (simp only: handleSensorDataAnalysis_def Let_def handleActuatorCommandMessage_events)
      simp
  have fields: "ad_typeID ?ad = HVAC_ACTUATOR_TYPE cc"
    "ad_name ?ad = Some (HVAC_ACTUATOR_NAME cc)"
    "ad_locationID ?ad = sd_locationID data"
    by (simp_all add: new_ActuatorData_def)
  have hot: "float_gt ?v ?hi \<Longrightarrow> ad_command ?ad = COMMAND_ON cc \<and> ad_value ?ad = ?hi"
    by simp
  have cold: "float_lt ?v ?lo \<Longrightarrow> ad_command ?ad = COMMAND_ON cc \<and> ad_value ?ad = ?lo"
    using excl by simp
  have mild: "\<not> float_gt ?v ?hi \<Longrightarrow> \<not> float_lt ?v ?lo
                \<Longrightarrow> ad_command ?ad = COMMAND_OFF cc \<and> ad_value ?ad = zero_float"
    by simp
  have none: "\<forall>a. SendActuatorCommand a \<notin> set ?rest"
    by (simp add: sendActuatorCommand_events)
  from run none fields hot cold mild show ?thesis
    by blast
qed

text \<open>
  The spec's three readings, with floor 18.0 and ceiling 20.0: 21.0 gives ON with
  20.0, 15.0 gives ON with 18.0, 19.0 gives OFF with 0.0.
\<close>

theorem control_rule_witness:
  "handleTempChangeOnDevice ddm0
   \<and> sd_typeID (temp_reading (Dec 210 1)) = TEMP_SENSOR_TYPE cc0
   \<and> float_lt (triggerHvacTempFloor ddm0) (triggerHvacTempCeiling ddm0)
   \<and> (\<exists>ad rest. handleSensorDataAnalysis cc0 ddm0 (temp_reading (Dec 210 1))
                   = SendActuatorCommand ad # rest
          \<and> ad_typeID ad = 1 \<and> ad_command ad = 1 \<and> ad_value ad = Dec 200 1)
   \<and> (\<exists>ad rest. handleSensorDataAnalysis cc0 ddm0 (temp_reading (Dec 150 1))
                   = SendActuatorCommand ad # rest
          \<and> ad_typeID ad = 1 \<and> ad_command ad = 1 \<and> ad_value ad = Dec 180 1)
   \<and> (\<exists>ad rest. handleSensorDataAnalysis cc0 ddm0 (temp_reading (Dec 190 1))
                   = SendActuatorCommand ad # rest
          \<and> ad_typeID ad = 1 \<and> ad_command ad = 0 \<and> ad_value ad = Dec 0 1)"
proof -
  have h1: "handleTempChangeOnDevice ddm0"
    by (simp add: ddm0_def)
  have h2: "sd_typeID (temp_reading v) = TEMP_SENSOR_TYPE cc0" for v
    by (simp add: temp_reading_def cc0_def)
  have h3: "float_lt (triggerHvacTempFloor ddm0) (triggerHvacTempCeiling ddm0)"
    by (simp add: ddm0_def float_lt_def float_val_def)
  have cmp: "float_gt (Dec 210 1) (Dec 200 1)" "float_lt (Dec 150 1) (Dec 180 1)"
    "\<not> float_gt (Dec 190 1) (Dec 200 1)" "\<not> float_lt (Dec 190 1) (Dec 180 1)"
    by (simp_all add: float_gt_def float_lt_def float_val_def)
  have hot: "\<exists>ad rest. handleSensorDataAnalysis cc0 ddm0 (temp_reading (Dec 210 1))
                = SendActuatorCommand ad # rest
              \<and> ad_typeID ad = 1 \<and> ad_command ad = 1 \<and> ad_value ad = Dec 200 1"
    using control_rule [OF h1 h2 [of "Dec 210 1"] h3] cmp
    by (auto simp: temp_reading_def ddm0_def cc0_def)
  have cold: "\<exists>ad rest. handleSensorDataAnalysis cc0 ddm0 (temp_reading (Dec 150 1))
                = SendActuatorCommand ad # rest
              \<and> ad_typeID ad = 1 \<and> ad_command ad = 1 \<and> ad_value ad = Dec 180 1"
    using control_rule [OF h1 h2 [of "Dec 150 1"] h3] cmp
    by (auto simp: temp_reading_def ddm0_def cc0_def)
  have mild: "\<exists>ad rest. handleSensorDataAnalysis cc0 ddm0 (temp_reading (Dec 190 1))
                = SendActuatorCommand ad # rest
              \<and> ad_typeID ad = 1 \<and> ad_command ad = 0 \<and> ad_value ad = Dec 0 1"
    using control_rule [OF h1 h2 [of "Dec 190 1"] h3] cmp
    by (auto simp: temp_reading_def ddm0_def cc0_def zero_float_def)
  from h1 h2 h3 hot cold mild show ?thesis
    by blast
qed

section \<open>Properties of the MqttClientConnector\<close>

text \<open>
  Claim C4. \<open>publishMessage\<close> returns a boolean on every input; no exception leaves
  it. Without a connection to the broker it returns False, and with a resource that is
  \<open>None\<close> or a payload that is \<open>None\<close> or empty it returns False before anything is
  handed to the transport.
\<close>

theorem publishMessage_fails:
  "(\<not> connected (mc conn) \<longrightarrow> fst (publishMessage rv conn resource msg qos) = False)
   \<and> (resource = None \<or> msg = None \<or> msg = Some [] \<longrightarrow>
        publishMessage rv conn resource msg qos = (False, []))"
  by (auto simp: publishMessage_def mc_publish_def wait_for_publish_def MQTT_ERR_NO_CONN_def
        Let_def split: option.splits sum.splits)

theorem publishMessage_fails_witness:
  "\<not> connected (mc conn0)
   \<and> fst (publishMessage rv0 conn0 (Some CDA_SENSOR_MSG_RESOURCE) (Some ''{}'') 0) = False
   \<and> publishMessage rv0 conn0 None (Some ''{}'') 0 = (False, [])
   \<and> publishMessage rv0 conn0 (Some CDA_SENSOR_MSG_RESOURCE) None 0 = (False, [])
   \<and> publishMessage rv0 conn0 (Some CDA_SENSOR_MSG_RESOURCE) (Some []) 0 = (False, [])"
proof -
  have off: "\<not> connected (mc conn0)"
    by (simp add: conn0_def)
  have a: "fst (publishMessage rv0 conn0 (Some CDA_SENSOR_MSG_RESOURCE) (Some ''{}'') 0) = False"
    using publishMessage_fails [of conn0 rv0 "Some CDA_SENSOR_MSG_RESOURCE" "Some ''{}''" 0] off
    by simp
  have b: "publishMessage rv0 conn0 None (Some ''{}'') 0 = (False, [])"
    using publishMessage_fails [of conn0 rv0 None "Some ''{}''" 0] by simp
  have c: "publishMessage rv0 conn0 (Some CDA_SENSOR_MSG_RESOURCE) None 0 = (False, [])"
    using publishMessage_fails [of conn0 rv0 "Some CDA_SENSOR_MSG_RESOURCE" None 0] by simp
  have d: "publishMessage rv0 conn0 (Some CDA_SENSOR_MSG_RESOURCE) (Some []) 0 = (False, [])"
    using publishMessage_fails [of conn0 rv0 "Some CDA_SENSOR_MSG_RESOURCE" "Some []" 0] by simp
  from off a b c d show ?thesis
    by simp
qed

text \<open>With a connection the same call hands the payload to the transport and succeeds.\<close>

lemma publishMessage_connected:
  "publishMessage rv0 (conn0\<lparr>mc := \<lparr>connected = True\<rparr>\<rparr>) (Some CDA_SENSOR_MSG_RESOURCE)
       (Some ''{}'') 0
     = (True, [McPublish ''PIOT/ConstrainedDevice/SensorMsg'' ''{}'' 0])"
  by (simp add: publishMessage_def mc_publish_def wait_for_publish_def MQTT_ERR_SUCCESS_def
        rv0_def conn0_def)

text \<open>
  Claim C8. A delivered message whose topic the lookup does not resolve to a member of
  ResourceNameEnum never reaches the listener: the callback produces no event.
\<close>

theorem onMessage_unmapped_topic:
  assumes "\<forall>r. lookup (msg_topic msg) \<noteq> Inr (Some r)"
  shows "events_of (onMessage lookup conn msg) = []"
  using assms by (auto simp: onMessage_def events_of_def split: sum.splits option.splits)

theorem onMessage_unmapped_topic_witness:
  "(\<forall>r. lookup0 (msg_topic \<lparr>msg_topic = ''PIOT/Unknown'', msg_payload = Inr ''{}''\<rparr>)
          \<noteq> Inr (Some r))
   \<and> events_of (onMessage lookup0 conn0 \<lparr>msg_topic = ''PIOT/Unknown'', msg_payload = Inr ''{}''\<rparr>)
       = []"
proof -
  have h: "\<forall>r. lookup0 (msg_topic \<lparr>msg_topic = ''PIOT/Unknown'', msg_payload = Inr ''{}''\<rparr>)
                 \<noteq> Inr (Some r)"
    by (simp add: lookup0_def rv0_def)
  have "events_of (onMessage lookup0 conn0
                     \<lparr>msg_topic = ''PIOT/Unknown'', msg_payload = Inr ''{}''\<rparr>) = []"
    using h by (rule onMessage_unmapped_topic)
  with h show ?thesis
    by simp
qed

text \<open>A message on a mapped topic is handed to the listener.\<close>

lemma onMessage_mapped_topic:
  "onMessage lookup0 conn0
       \<lparr>msg_topic = ''PIOT/ConstrainedDevice/ActuatorCmd'', msg_payload = Inr ''{}''\<rparr>
     = Inr [HandleIncomingMessage CDA_ACTUATOR_CMD_RESOURCE ''{}'']"
  by (simp add: onMessage_def lookup0_def rv0_def conn0_def)

section \<open>Properties of the SystemPerformanceManager\<close>

text \<open>
  Claim C9. The claim says that each firing of the periodic task polls CPU, memory and
  disk utilisation and forwards a reading to the coordinator. The code does less:
  after \<open>setDataMessageListener\<close>, a firing of \<open>handleTelemetry\<close> reads the CPU and the
  memory task and ends; no disk value is read and no listener is called.
\<close>

theorem handleTelemetry_forwards_nothing:
  "handleTelemetry (setDataMessageListener spm (Some DataMessageListener))
     = [GetTelemetryValue CpuUtil (cpuUtilTask spm), GetTelemetryValue MemUtil (memUtilTask spm)]"
  by (simp add: handleTelemetry_def setDataMessageListener_def)

section \<open>Properties of the DeviceDataManager\<close>

text \<open>
  Claim C6. \<open>handleSensorMessage(None)\<close> returns False; the coordinator, and with it
  the three caches, is unchanged, and the call has no event: no command is issued and
  nothing is transmitted upstream.
\<close>

theorem handleSensorMessage_null:
  "handleSensorMessage rv cc mgr None = Inr (False, mgr, [])"
  by (simp add: handleSensorMessage_def)

lemma replace_nonempty:
  "s \<noteq> [] \<Longrightarrow> new \<noteq> [] \<Longrightarrow> replace old new s \<noteq> []"
  by (cases s) auto

lemma generateJsonData_default:
  "\<exists>msg. generateJsonData new_DataUtil obj = Inr msg \<and> msg \<noteq> []"
  by (simp add: generateJsonData_def new_DataUtil_def replace_python_style_def
        replace_nonempty)

lemma handleUpstreamTransmission_events:
  "msg \<noteq> [] \<Longrightarrow>
   handleUpstreamTransmission rv cc mgr r msg
     = UpstreamTransmission r msg #
         (case mqttClient mgr of None \<Rightarrow> []
          | Some client \<Rightarrow> [McPublish (rv r) msg (DEFAULT_QOS cc)])"
  by (auto simp: handleUpstreamTransmission_def publishMessage_def Let_def
        split: option.splits sum.splits)

lemma handleSensorMessage_some:
  "\<exists>evs. handleSensorMessage rv cc mgr (Some d)
           = Inr (True, mgr\<lparr>latestSensorDataCache :=
                               cache_put (latestSensorDataCache mgr) (sd_name d) d\<rparr>, evs)"
proof -
  obtain msg where "generateJsonData new_DataUtil (vars_SensorData d) = Inr msg"
    using generateJsonData_default by blast
  then show ?thesis
    by (simp add: handleSensorMessage_def sensorDataToJson_def Let_def)
qed

lemma cache_get_put:
  "X \<noteq> [] \<Longrightarrow>
   cache_get (cache_put cache name d) (Some X)
     = (if name = Some X then Some d else cache_get cache (Some X))"
  by (auto simp: cache_get_def cache_put_def split: option.splits)

lemma sensor_cache_total:
  "\<exists>mgr'. handleSensorMessages rv cc mgr ds = Inr mgr'"
proof (induction ds arbitrary: mgr)
  case Nil
  show ?case by simp
next
  case (Cons data ds)
  show ?case
  proof (cases data)
    case None
    with Cons.IH [of mgr] show ?thesis
      by (simp add: handleSensorMessage_def)
  next
    case (Some d)
    obtain evs where "handleSensorMessage rv cc mgr (Some d)
        = Inr (True, mgr\<lparr>latestSensorDataCache :=
                           cache_put (latestSensorDataCache mgr) (sd_name d) d\<rparr>, evs)"
      using handleSensorMessage_some by blast
    with Cons.IH Some show ?thesis
      by simp
  qed
qed

lemma sensor_cache_latest_sequence:
  assumes "X \<noteq> []"
  shows "\<exists>mgr'. handleSensorMessages rv cc mgr ds = Inr mgr'
           \<and> getLatestSensorDataFromCache mgr' (Some X)
               = latest_named X (getLatestSensorDataFromCache mgr (Some X)) ds"
proof (induction ds arbitrary: mgr)
  case Nil
  show ?case by simp
next
  case (Cons data ds)
  show ?case
  proof (cases data)
    case None
    with Cons.IH [of mgr] show ?thesis
      by (simp add: handleSensorMessage_def)
  next
    case (Some d)
    let ?mgr1 = "mgr\<lparr>latestSensorDataCache :=
                       cache_put (latestSensorDataCache mgr) (sd_name d) d\<rparr>"
    obtain evs where step: "handleSensorMessage rv cc mgr (Some d) = Inr (True, ?mgr1, evs)"
      using handleSensorMessage_some by blast
    have look: "getLatestSensorDataFromCache ?mgr1 (Some X)
                  = (if sd_name d = Some X then Some d
                     else getLatestSensorDataFromCache mgr (Some X))"
      using assms by (simp add: getLatestSensorDataFromCache_def cache_get_put)
    from Cons.IH [of ?mgr1] step look Some show ?thesis
      by simp
  qed
qed

lemma handleSensorMessage_nameless:
  assumes "\<not> truthy_name (sd_name d)"
  shows "\<exists>evs. handleSensorMessage rv cc mgr (Some d) = Inr (True, mgr, evs)"
proof -
  have "cache_put (latestSensorDataCache mgr) (sd_name d) d = latestSensorDataCache mgr"
    using assms by (auto simp: cache_put_def split: option.splits)
  with handleSensorMessage_some [of rv cc mgr d] show ?thesis
    by simp
qed

text \<open>
  Claim C7, as the code has it. For a non-empty name \<open>X\<close>, after any sequence of
  calls of \<open>handleSensorMessage\<close>, none of which raises, the lookup of \<open>X\<close> in the
  sensor cache returns the last non-null reading named \<open>X\<close> of the sequence, or what
  the cache held before when there is none. For two readings named \<open>X\<close> that is the
  second one. A reading whose name is \<open>None\<close> or empty is ingested with the
  coordinator, and so its caches, unchanged: it is not cached. The lookup of the name
  \<open>None\<close> and of the empty name returns \<open>None\<close> in every coordinator.
\<close>

theorem sensor_cache_latest:
  assumes "X \<noteq> []"
  shows "(\<exists>mgr'. handleSensorMessages rv cc mgr ds = Inr mgr'
            \<and> getLatestSensorDataFromCache mgr' (Some X)
                = latest_named X (getLatestSensorDataFromCache mgr (Some X)) ds)
         \<and> (\<forall>d. \<not> truthy_name (sd_name d) \<longrightarrow>
                (\<exists>evs. handleSensorMessage rv cc mgr (Some d) = Inr (True, mgr, evs)))
         \<and> (\<forall>m. getLatestSensorDataFromCache m None = None
                \<and> getLatestSensorDataFromCache m (Some []) = None)"
proof -
  have lookup: "\<forall>m. getLatestSensorDataFromCache m None = None
                    \<and> getLatestSensorDataFromCache m (Some []) = None"
    by (simp add: getLatestSensorDataFromCache_def cache_get_def)
  from sensor_cache_latest_sequence [OF assms, of rv cc mgr ds]
    handleSensorMessage_nameless [of _ rv cc mgr] lookup
  show ?thesis
    by blast
qed

theorem sensor_cache_latest_witness:
  "''TempSensor'' \<noteq> []
   \<and> (\<exists>mgr'. handleSensorMessages rv0 cc0 ddm0
                 [Some (temp_reading (Dec 210 1)), Some (temp_reading (Dec 190 1))] = Inr mgr'
          \<and> getLatestSensorDataFromCache mgr' (Some ''TempSensor'')
              = Some (temp_reading (Dec 190 1)))
   \<and> \<not> truthy_name (sd_name ((temp_reading (Dec 210 1))\<lparr>sd_name := None\<rparr>))
   \<and> (\<exists>evs. handleSensorMessage rv0 cc0 ddm0
                 (Some ((temp_reading (Dec 210 1))\<lparr>sd_name := None\<rparr>)) = Inr (True, ddm0, evs))
   \<and> \<not> truthy_name (sd_name ((temp_reading (Dec 210 1))\<lparr>sd_name := Some []\<rparr>))
   \<and> (\<exists>evs. handleSensorMessage rv0 cc0 ddm0
                 (Some ((temp_reading (Dec 210 1))\<lparr>sd_name := Some []\<rparr>)) = Inr (True, ddm0, evs))
   \<and> getLatestSensorDataFromCache ddm0 None = None
   \<and> getLatestSensorDataFromCache ddm0 (Some []) = None"
proof -
  have h: "''TempSensor'' \<noteq> []"
    by simp
  have h1: "\<not> truthy_name (sd_name ((temp_reading (Dec 210 1))\<lparr>sd_name := None\<rparr>))"
    by simp
  have h2: "\<not> truthy_name (sd_name ((temp_reading (Dec 210 1))\<lparr>sd_name := Some []\<rparr>))"
    by simp
  have last: "latest_named ''TempSensor''
                (getLatestSensorDataFromCache ddm0 (Some ''TempSensor''))
                [Some (temp_reading (Dec 210 1)), Some (temp_reading (Dec 190 1))]
              = Some (temp_reading (Dec 190 1))"
    by (simp add: temp_reading_def)
  note inst = sensor_cache_latest [OF h, of rv0 cc0 ddm0
      "[Some (temp_reading (Dec 210 1)), Some (temp_reading (Dec 190 1))]"]
  from inst last have a: "\<exists>mgr'. handleSensorMessages rv0 cc0 ddm0
                 [Some (temp_reading (Dec 210 1)), Some (temp_reading (Dec 190 1))] = Inr mgr'
          \<and> getLatestSensorDataFromCache mgr' (Some ''TempSensor'')
              = Some (temp_reading (Dec 190 1))"
    by simp
  from inst h1 have b: "\<exists>evs. handleSensorMessage rv0 cc0 ddm0
                 (Some ((temp_reading (Dec 210 1))\<lparr>sd_name := None\<rparr>)) = Inr (True, ddm0, evs)"
    by blast
  from inst h2 have c: "\<exists>evs. handleSensorMessage rv0 cc0 ddm0
                 (Some ((temp_reading (Dec 210 1))\<lparr>sd_name := Some []\<rparr>)) = Inr (True, ddm0, evs)"
    by blast
  from inst have d: "getLatestSensorDataFromCache ddm0 None = None
                    \<and> getLatestSensorDataFromCache ddm0 (Some []) = None"
    by blast
  from h a h1 b h2 c d show ?thesis
    by blast
qed

text \<open>
  The claim as stated, for every name, fails for the empty name: two readings named
  \<open>''''\<close> are ingested and the lookup of \<open>''''\<close> returns \<open>None\<close>, not the second
  reading.
\<close>

theorem sensor_cache_empty_name_counterexample:
  "(case handleSensorMessages rv0 cc0 ddm0
           [Some ((temp_reading (Dec 210 1))\<lparr>sd_name := Some []\<rparr>),
            Some ((temp_reading (Dec 190 1))\<lparr>sd_name := Some []\<rparr>)] of
      Inl e \<Rightarrow> None
    | Inr mgr' \<Rightarrow> Some (getLatestSensorDataFromCache mgr' (Some [])))
   = Some None"
proof -
  obtain mgr' where "handleSensorMessages rv0 cc0 ddm0
           [Some ((temp_reading (Dec 210 1))\<lparr>sd_name := Some []\<rparr>),
            Some ((temp_reading (Dec 190 1))\<lparr>sd_name := Some []\<rparr>)] = Inr mgr'"
    using sensor_cache_total by blast
  then show ?thesis
    by (simp add: getLatestSensorDataFromCache_def cache_get_def)
qed

text \<open>
  Claim C10. For a non-null record whose name is \<open>None\<close> or empty, each of the three
  ingest operations returns True, leaves the coordinator and its caches as they were,
  and calls \<open>_handleUpstreamTransmission\<close> with the record's JSON text, which hands the
  text to the transport when an MQTT client is configured. For a sensor reading the
  events of the control rule come first.
\<close>

theorem ingest_without_name:
  assumes "\<not> truthy_name (sd_name sd)"
    and "\<not> truthy_name (ad_name ad)"
    and "\<not> truthy_name (spd_name spd)"
  shows "\<exists>m1 m2 m3.
           sensorDataToJson new_DataUtil (Some sd) = Inr m1
           \<and> actuatorDataToJson new_DataUtil (Some ad) = Inr m2
           \<and> systemPerformanceDataToJson new_DataUtil (Some spd) = Inr m3
           \<and> handleSensorMessage rv cc mgr (Some sd)
               = Inr (True, mgr,
                      handleSensorDataAnalysis cc mgr sd
                      @ UpstreamTransmission CDA_SENSOR_MSG_RESOURCE m1
                        # (case mqttClient mgr of None \<Rightarrow> []
                           | Some client \<Rightarrow>
                               [McPublish (rv CDA_SENSOR_MSG_RESOURCE) m1 (DEFAULT_QOS cc)]))
           \<and> handleActuatorCommandResponse rv cc mgr (Some ad)
               = Inr (True, mgr,
                      UpstreamTransmission CDA_ACTUATOR_RESPONSE_MSG_RESOURCE m2
                        # (case mqttClient mgr of None \<Rightarrow> []
                           | Some client \<Rightarrow>
                               [McPublish (rv CDA_ACTUATOR_RESPONSE_MSG_RESOURCE) m2
                                  (DEFAULT_QOS cc)]))
           \<and> handleSystemPerformanceMessage rv cc mgr (Some spd)
               = Inr (True, mgr,
                      UpstreamTransmission CDA_SYSTEM_PERF_MSG_RESOURCE m3
                        # (case mqttClient mgr of None \<Rightarrow> []
                           | Some client \<Rightarrow>
                               [McPublish (rv CDA_SYSTEM_PERF_MSG_RESOURCE) m3
                                  (DEFAULT_QOS cc)]))"
proof -
  obtain m1 where m1: "generateJsonData new_DataUtil (vars_SensorData sd) = Inr m1" "m1 \<noteq> []"
    using generateJsonData_default by blast
  obtain m2 where m2: "generateJsonData new_DataUtil (vars_ActuatorData ad) = Inr m2" "m2 \<noteq> []"
    using generateJsonData_default by blast
  obtain m3 where m3: "generateJsonData new_DataUtil (vars_SystemPerformanceData spd) = Inr m3"
    "m3 \<noteq> []"
    using generateJsonData_default by blast
  have keep: "cache_put c (sd_name sd) sd = c" "cache_put c2 (ad_name ad) ad = c2"
    "cache_put c3 (spd_name spd) spd = c3" for c c2 c3
    using assms by (auto simp: cache_put_def split: option.splits)
  have a: "handleSensorMessage rv cc mgr (Some sd)
             = Inr (True, mgr,
                    handleSensorDataAnalysis cc mgr sd
                    @ UpstreamTransmission CDA_SENSOR_MSG_RESOURCE m1
                      # (case mqttClient mgr of None \<Rightarrow> []
                         | Some client \<Rightarrow>
                             [McPublish (rv CDA_SENSOR_MSG_RESOURCE) m1 (DEFAULT_QOS cc)]))"
    using m1 by (simp add: handleSensorMessage_def sensorDataToJson_def Let_def keep
        handleUpstreamTransmission_events)
  have b: "handleActuatorCommandResponse rv cc mgr (Some ad)
             = Inr (True, mgr,
                    UpstreamTransmission CDA_ACTUATOR_RESPONSE_MSG_RESOURCE m2
                      # (case mqttClient mgr of None \<Rightarrow> []
                         | Some client \<Rightarrow>
                             [McPublish (rv CDA_ACTUATOR_RESPONSE_MSG_RESOURCE) m2
                                (DEFAULT_QOS cc)]))"
    using m2 by (simp add: handleActuatorCommandResponse_def actuatorDataToJson_def Let_def keep
        handleUpstreamTransmission_events)
  have c: "handleSystemPerformanceMessage rv cc mgr (Some spd)
             = Inr (True, mgr,
                    UpstreamTransmission CDA_SYSTEM_PERF_MSG_RESOURCE m3
                      # (case mqttClient mgr of None \<Rightarrow> []
                         | Some client \<Rightarrow>
                             [McPublish (rv CDA_SYSTEM_PERF_MSG_RESOURCE) m3
                                (DEFAULT_QOS cc)]))"
    using m3 by (simp add: handleSystemPerformanceMessage_def systemPerformanceDataToJson_def
        Let_def keep handleUpstreamTransmission_events)
  from m1(1) m2(1) m3(1) a b c show ?thesis
    by (simp add: sensorDataToJson_def actuatorDataToJson_def systemPerformanceDataToJson_def)
qed

theorem ingest_without_name_witness:
  "\<not> truthy_name (sd_name ((temp_reading (Dec 210 1))\<lparr>sd_name := None\<rparr>))
   \<and> \<not> truthy_name (ad_name (hvac_cmd0\<lparr>ad_name := Some []\<rparr>))
   \<and> \<not> truthy_name (spd_name (spd0\<lparr>spd_name := None\<rparr>))
   \<and> (\<exists>evs. handleSensorMessage rv0 cc0 ddm0 (Some ((temp_reading (Dec 210 1))\<lparr>sd_name := None\<rparr>))
               = Inr (True, ddm0, evs))
   \<and> (\<exists>evs. handleActuatorCommandResponse rv0 cc0 ddm0 (Some (hvac_cmd0\<lparr>ad_name := Some []\<rparr>))
               = Inr (True, ddm0, evs))
   \<and> (\<exists>evs. handleSystemPerformanceMessage rv0 cc0 ddm0 (Some (spd0\<lparr>spd_name := None\<rparr>))
               = Inr (True, ddm0, evs))"
proof -
  have h1: "\<not> truthy_name (sd_name ((temp_reading (Dec 210 1))\<lparr>sd_name := None\<rparr>))"
    by simp
  have h2: "\<not> truthy_name (ad_name (hvac_cmd0\<lparr>ad_name := Some []\<rparr>))"
    by simp
  have h3: "\<not> truthy_name (spd_name (spd0\<lparr>spd_name := None\<rparr>))"
    by simp
  from ingest_without_name [OF h1 h2 h3, of rv0 cc0 ddm0] h1 h2 h3 show ?thesis
    by blast
qed

section \<open>Properties of the codec\<close>

text \<open>
  A reading whose strings contain neither a single quote nor \<open>True\<close> or \<open>False\<close> is
  decoded from its own JSON text to the same attributes.
\<close>

lemma roundtrip_temp_reading:
  "roundtrip_SensorData new_DataUtil sd_fresh (temp_reading (Dec 215 1))
     = Inr (Some (vars_SensorData (temp_reading (Dec 215 1))))"
  by code_simp

text \<open>
  Claim C2. The claim says that decoding the encoding of a record gives the record
  back, field by field. The code does not for a record with \<open>True\<close> in a string: the
  encoder replaces \<open>True\<close> by \<open>true\<close> in the whole JSON text, so the reading named
  \<open>TrueTemp\<close> is decoded as a reading named \<open>trueTemp\<close>.
\<close>

theorem roundtrip_changes_name:
  "roundtrip_SensorData new_DataUtil sd_fresh sd_true
     = Inr (Some (vars_SensorData (sd_true\<lparr>sd_name := Some ''trueTemp''\<rparr>)))
   \<and> roundtrip_SensorData new_DataUtil sd_fresh sd_true \<noteq> Inr (Some (vars_SensorData sd_true))"
  by code_simp

text \<open>
  With a single quote in a string the encoder's text is not JSON any more, and the
  decoder raises.
\<close>

lemma roundtrip_single_quote:
  "roundtrip_SensorData new_DataUtil sd_fresh sd_quote = Inl JSONDecodeError"
  by code_simp

lemma jsonToData_None:
  "(jsonToData fresh jsonData = Inr None) = (jsonData = None \<or> jsonData = Some [])"
  by (auto simp: jsonToData_def split: option.splits sum.splits)

text \<open>
  Claim C3, as the code has it. For a non-empty text that \<open>json.loads\<close> rejects after
  the replacements of \<open>_formatDataAndLoadDictionary\<close>, each of the three decoders
  raises the parser's exception to its caller. Each decoder returns \<open>None\<close> exactly
  for an input that is \<open>None\<close> or empty.
\<close>

theorem decode_malformed_raises:
  assumes "text \<noteq> []"
    and "json_loads (replace_python_style text) = Inl e"
  shows "jsonToActuatorData fa (Some text) = Inl e
         \<and> jsonToSensorData fs (Some text) = Inl e
         \<and> jsonToSystemPerformanceData fp (Some text) = Inl e
         \<and> (\<forall>jsonData. (jsonToActuatorData fa jsonData = Inr None)
                          = (jsonData = None \<or> jsonData = Some []))
         \<and> (\<forall>jsonData. (jsonToSensorData fs jsonData = Inr None)
                          = (jsonData = None \<or> jsonData = Some []))
         \<and> (\<forall>jsonData. (jsonToSystemPerformanceData fp jsonData = Inr None)
                          = (jsonData = None \<or> jsonData = Some []))"
proof -
  have raise: "jsonToData fresh (Some text) = Inl e" for fresh
    using assms by (simp add: jsonToData_def formatDataAndLoadDictionary_def)
  show ?thesis
    by (simp add: jsonToActuatorData_def jsonToSensorData_def jsonToSystemPerformanceData_def
          jsonToData_None raise)
qed

theorem decode_malformed_raises_witness:
  "''{'' \<noteq> []
   \<and> json_loads (replace_python_style ''{'') = Inl JSONDecodeError
   \<and> jsonToActuatorData hvac_cmd0 (Some ''{'') = Inl JSONDecodeError
   \<and> jsonToSensorData sd_fresh (Some ''{'') = Inl JSONDecodeError
   \<and> jsonToSystemPerformanceData spd0 (Some ''{'') = Inl JSONDecodeError
   \<and> jsonToActuatorData hvac_cmd0 None = Inr None
   \<and> jsonToActuatorData hvac_cmd0 (Some []) = Inr None
   \<and> jsonToSensorData sd_fresh None = Inr None
   \<and> jsonToSensorData sd_fresh (Some []) = Inr None
   \<and> jsonToSystemPerformanceData spd0 None = Inr None
   \<and> jsonToSystemPerformanceData spd0 (Some []) = Inr None"
proof -
  have h1: "''{'' \<noteq> []"
    by simp
  have h2: "json_loads (replace_python_style ''{'') = Inl JSONDecodeError"
    by code_simp
  from decode_malformed_raises [OF h1 h2, of hvac_cmd0 sd_fresh spd0] h1 h2 show ?thesis
    by simp
qed

text \<open>
  The claim as stated fails: the text \<open>{\<close> is not empty and not JSON, and
  \<open>jsonToActuatorData\<close> raises JSONDecodeError instead of returning \<open>None\<close>.
\<close>

theorem decode_malformed_counterexample:
  "json_loads ''{'' = Inl JSONDecodeError
   \<and> jsonToActuatorData hvac_cmd0 (Some ''{'') = Inl JSONDecodeError
   \<and> jsonToActuatorData hvac_cmd0 (Some ''{'') \<noteq> Inr None"
  by code_simp

end
